theory Spec2Isabelle
  imports Main
begin

section \<open>Data model of \<^verbatim>\<open>main.go\<close>\<close>

text \<open>
  The service stores a snapshot of notes in two files of its working directory:
  \<^verbatim>\<open>data.txt\<close> (the compact store, the request payload as received) and
  \<^verbatim>\<open>data_readable.txt\<close> (the readable store, an indented rendering of the parsed
  payload). Byte sequences are \<open>string\<close>s: a \<open>char\<close> is one byte.
\<close>

text \<open>
  A \<^verbatim>\<open>time.Time\<close> as far as its JSON form shows it: the wall clock reading in the
  value's own zone, and the zone's offset east of UTC in minutes. The zero value is
  January 1, year 1, 00:00:00 UTC.
\<close>

record Time =
  year :: nat
  month :: nat
  day :: nat
  hour :: nat
  minute :: nat
  second :: nat
  nanosecond :: nat
  zone_minutes :: int

definition zero_Time :: Time where
  "zero_Time = \<lparr>year = 1, month = 1, day = 1, hour = 0, minute = 0, second = 0,
     nanosecond = 0, zone_minutes = 0\<rparr>"

text \<open>
  The structs \<^verbatim>\<open>Content\<close> and \<^verbatim>\<open>Note\<close>. A Go slice is \<open>None\<close> when it is
  nil and \<open>Some xs\<close> otherwise: the two are encoded differently (\<^verbatim>\<open>null\<close> and
  \<^verbatim>\<open>[]\<close>).
\<close>

record Content =
  c_ID :: string
  c_Title :: string
  c_Text :: string
  c_CreatedAt :: Time
  c_UpdatedAt :: Time

record Note =
  n_ID :: string
  n_Title :: string
  n_Content :: "Content list option"
  n_CreatedAt :: Time
  n_UpdatedAt :: Time

definition zero_Content :: Content where
  "zero_Content = \<lparr>c_ID = [], c_Title = [], c_Text = [],
     c_CreatedAt = zero_Time, c_UpdatedAt = zero_Time\<rparr>"

definition zero_Note :: Note where
  "zero_Note = \<lparr>n_ID = [], n_Title = [], n_Content = None,
     n_CreatedAt = zero_Time, n_UpdatedAt = zero_Time\<rparr>"

section \<open>JSON texts\<close>

text \<open>
  This section and the next three model the part of Go's \<^verbatim>\<open>encoding/json\<close> and of the JSON
  methods of \<^verbatim>\<open>time.Time\<close> that the program reaches. The package is not part of
  the repository: the model follows its documentation. The handlers below do not
  depend on it (they take the package as a parameter); it is used where a claim speaks
  of the bytes the package produces or of the payloads it accepts.
\<close>

text \<open>
  A JSON value as the decoder sees it. A number keeps its literal; a string and the key
  of a member keep the bytes between the quotes, escapes not yet resolved (the decoder
  resolves them for a string field, and hands the bytes as they are to
  \<^verbatim>\<open>Time.UnmarshalJSON\<close>).
\<close>

datatype json = JNull | JBool bool | JNumber string | JString string
  | JArray "json list" | JObject "(string \<times> json) list"

datatype token = TLBracket | TRBracket | TLBrace | TRBrace | TComma | TColon | TValue json

text \<open>
  The scanner works on bytes. White space is space, tab, carriage return and line feed.
\<close>

definition byte :: "char \<Rightarrow> nat" where
  "byte c = of_char c"

definition isSpace :: "char \<Rightarrow> bool" where
  "isSpace c = (c = CHR '' '' \<or> c = CHR 0x09 \<or> c = CHR 0x0D \<or> c = CHR 0x0A)"

definition isDigit :: "char \<Rightarrow> bool" where
  "isDigit c = (48 \<le> byte c \<and> byte c \<le> 57)"

definition isHex :: "char \<Rightarrow> bool" where
  "isHex c = (isDigit c \<or> (97 \<le> byte c \<and> byte c \<le> 102) \<or> (65 \<le> byte c \<and> byte c \<le> 70))"

text \<open>
  \<open>string_span s\<close> is the number of bytes of a string literal between the opening
  quote, which precedes \<open>s\<close>, and the closing quote, or \<open>None\<close> when the literal
  is not closed or is malformed: a control character, or a backslash that is followed
  neither by one of \<^verbatim>\<open>b f n r t \ / "\<close> nor by \<^verbatim>\<open>u\<close> and four hexadecimal digits.
\<close>

fun string_span :: "string \<Rightarrow> nat option" where
  "string_span [] = None"
| "string_span (c # cs) =
     (if c = CHR 0x22 then Some 0
      else if c = CHR 0x5C then
        (case cs of
           [] \<Rightarrow> None
         | e # es \<Rightarrow>
             if e \<in> set [CHR ''b'', CHR ''f'', CHR ''n'', CHR ''r'', CHR ''t'', CHR 0x5C, CHR ''/'', CHR 0x22]
             then map_option (\<lambda>n. n + 2) (string_span es)
             else if e = CHR ''u'' \<and> 4 \<le> length es \<and> list_all isHex (take 4 es)
             then map_option (\<lambda>n. n + 6) (string_span (drop 4 es))
             else None)
      else if byte c < 32 then None
      else map_option Suc (string_span cs))"

text \<open>
  A number literal is an optional minus sign, then \<^verbatim>\<open>0\<close> or a digit from 1 to 9 with
  further digits, then optionally a period with at least one digit, then optionally an
  exponent with an optional sign and at least one digit. \<open>number_span s\<close> is the
  length of the literal at the head of \<open>s\<close>.
\<close>

definition digits_span :: "string \<Rightarrow> nat" where
  "digits_span s = length (takeWhile isDigit s)"

definition int_span :: "string \<Rightarrow> nat option" where
  "int_span s =
     (case s of
        [] \<Rightarrow> None
      | c # cs \<Rightarrow> if c = CHR ''0'' then Some 1
                  else if isDigit c then Some (digits_span s)
                  else None)"

definition frac_span :: "string \<Rightarrow> nat option" where
  "frac_span s =
     (case s of
        [] \<Rightarrow> Some 0
      | c # cs \<Rightarrow> if c = CHR ''.'' then
                    (if digits_span cs = 0 then None else Some (1 + digits_span cs))
                  else Some 0)"

definition exp_span :: "string \<Rightarrow> nat option" where
  "exp_span s =
     (case s of
        [] \<Rightarrow> Some 0
      | c # cs \<Rightarrow>
          if c = CHR ''e'' \<or> c = CHR ''E'' then
            (let k = (case cs of [] \<Rightarrow> 0 | d # ds \<Rightarrow> if d = CHR ''+'' \<or> d = CHR ''-'' then 1 else (0::nat))
             in if digits_span (drop k cs) = 0 then None
                else Some (1 + k + digits_span (drop k cs)))
          else Some 0)"

definition number_span :: "string \<Rightarrow> nat option" where
  "number_span s =
     (let k = (case s of [] \<Rightarrow> 0 | c # cs \<Rightarrow> if c = CHR ''-'' then 1 else (0::nat))
      in case int_span (drop k s) of
           None \<Rightarrow> None
         | Some i \<Rightarrow>
             (case frac_span (drop (k + i) s) of
                None \<Rightarrow> None
              | Some f \<Rightarrow>
                  (case exp_span (drop (k + i + f) s) of
                     None \<Rightarrow> None
                   | Some e \<Rightarrow> Some (k + i + f + e))))"

text \<open>The tokens of a text, or \<open>None\<close> when some byte starts no token.\<close>

fun lex :: "string \<Rightarrow> token list option" where
  "lex [] = Some []"
| "lex (c # cs) =
     (if isSpace c then lex cs
      else if c = CHR ''['' then map_option (Cons TLBracket) (lex cs)
      else if c = CHR '']'' then map_option (Cons TRBracket) (lex cs)
      else if c = CHR ''{'' then map_option (Cons TLBrace) (lex cs)
      else if c = CHR ''}'' then map_option (Cons TRBrace) (lex cs)
      else if c = CHR '','' then map_option (Cons TComma) (lex cs)
      else if c = CHR '':'' then map_option (Cons TColon) (lex cs)
      else if c = CHR 0x22 then
        (case string_span cs of
           None \<Rightarrow> None
         | Some n \<Rightarrow> map_option (Cons (TValue (JString (take n cs)))) (lex (drop (Suc n) cs)))
      else if c = CHR ''-'' \<or> isDigit c then
        (case number_span (c # cs) of
           None \<Rightarrow> None
         | Some n \<Rightarrow> map_option (Cons (TValue (JNumber (take n (c # cs))))) (lex (drop (n - 1) cs)))
      else if take 4 (c # cs) = ''true'' then map_option (Cons (TValue (JBool True))) (lex (drop 3 cs))
      else if take 5 (c # cs) = ''false'' then map_option (Cons (TValue (JBool False))) (lex (drop 4 cs))
      else if take 4 (c # cs) = ''null'' then map_option (Cons (TValue JNull)) (lex (drop 3 cs))
      else None)"

text \<open>
  The syntax check reads the tokens with a stack of the arrays and objects that are
  open, as the package's scanner does; each frame collects the elements or members
  read so far. The states are those of the scanner: a value is expected; a value or
  the end of an empty array; a key or the end of an empty object; a key; a colon; a
  comma or the end of the array or object; the end of the text. Nesting deeper than
  10000 is an error.
\<close>

datatype frame = InArray "json list" | InObject "(string \<times> json) list" "string option"

datatype expect = BeginValue | BeginValueOrEmpty | BeginStringOrEmpty | BeginString
  | ExpectColon | EndValue | EndTop json

definition maxNestingDepth :: nat where
  "maxNestingDepth = 10000"

fun put_value :: "json \<Rightarrow> frame list \<Rightarrow> (expect \<times> frame list) option" where
  "put_value v [] = Some (EndTop v, [])"
| "put_value v (InArray xs # st) = Some (EndValue, InArray (xs @ [v]) # st)"
| "put_value v (InObject kvs (Some k) # st) = Some (EndValue, InObject (kvs @ [(k, v)]) None # st)"
| "put_value v (InObject kvs None # st) = None"

definition push_frame :: "expect \<Rightarrow> frame \<Rightarrow> frame list \<Rightarrow> (expect \<times> frame list) option" where
  "push_frame e f st = (if length st < maxNestingDepth then Some (e, f # st) else None)"

fun begin_value :: "token \<Rightarrow> frame list \<Rightarrow> (expect \<times> frame list) option" where
  "begin_value (TValue v) st = put_value v st"
| "begin_value TLBracket st = push_frame BeginValueOrEmpty (InArray []) st"
| "begin_value TLBrace st = push_frame BeginStringOrEmpty (InObject [] None) st"
| "begin_value _ st = None"

fun begin_string :: "token \<Rightarrow> frame list \<Rightarrow> (expect \<times> frame list) option" where
  "begin_string (TValue (JString k)) (InObject kvs None # st) =
     Some (ExpectColon, InObject kvs (Some k) # st)"
| "begin_string _ st = None"

fun end_value :: "token \<Rightarrow> frame list \<Rightarrow> (expect \<times> frame list) option" where
  "end_value TComma (InArray xs # st) = Some (BeginValue, InArray xs # st)"
| "end_value TComma (InObject kvs None # st) = Some (BeginString, InObject kvs None # st)"
| "end_value TRBracket (InArray xs # st) = put_value (JArray xs) st"
| "end_value TRBrace (InObject kvs None # st) = put_value (JObject kvs) st"
| "end_value _ st = None"

fun step :: "expect \<times> frame list \<Rightarrow> token \<Rightarrow> (expect \<times> frame list) option" where
  "step (BeginValue, st) t = begin_value t st"
| "step (BeginValueOrEmpty, st) t = (if t = TRBracket then end_value t st else begin_value t st)"
| "step (BeginStringOrEmpty, st) t = (if t = TRBrace then end_value t st else begin_string t st)"
| "step (BeginString, st) t = begin_string t st"
| "step (ExpectColon, st) t = (if t = TColon then Some (BeginValue, st) else None)"
| "step (EndValue, st) t = end_value t st"
| "step (EndTop v, st) t = None"

fun steps :: "expect \<times> frame list \<Rightarrow> token list \<Rightarrow> (expect \<times> frame list) option" where
  "steps s [] = Some s"
| "steps s (t # ts) = (case step s t of None \<Rightarrow> None | Some s' \<Rightarrow> steps s' ts)"

text \<open>
  A text is valid when its tokens lead from the start to the end state. Anything after
  the value other than white space is an error, as is the empty text.
\<close>

definition parse_json :: "string \<Rightarrow> json option" where
  "parse_json s =
     (case lex s of
        None \<Rightarrow> None
      | Some ts \<Rightarrow>
          (case steps (BeginValue, []) ts of
             Some (EndTop v, _) \<Rightarrow> Some v
           | _ \<Rightarrow> None))"

section \<open>JSON strings\<close>

text \<open>
  \<open>utf8_size s\<close> is the length of the UTF-8 sequence at the head of \<open>s\<close>, whose
  first byte is not ASCII, or 0 when the bytes there are not a valid sequence (Go then
  reads one byte as the replacement character U+FFFD).
\<close>

definition isCont :: "char \<Rightarrow> bool" where
  "isCont c = (128 \<le> byte c \<and> byte c \<le> 191)"

definition between :: "nat \<Rightarrow> nat \<Rightarrow> char \<Rightarrow> bool" where
  "between lo hi c = (lo \<le> byte c \<and> byte c \<le> hi)"

fun utf8_size :: "string \<Rightarrow> nat" where
  "utf8_size (b0 # b1 # b2 # b3 # _) =
     (if between 194 223 b0 \<and> isCont b1 then 2
      else if (b0 = CHR 0xE0 \<and> between 160 191 b1 \<or> (between 225 236 b0 \<or> between 238 239 b0) \<and> isCont b1
               \<or> b0 = CHR 0xED \<and> between 128 159 b1) \<and> isCont b2 then 3
      else if (b0 = CHR 0xF0 \<and> between 144 191 b1 \<or> between 241 243 b0 \<and> isCont b1
               \<or> b0 = CHR 0xF4 \<and> between 128 143 b1) \<and> isCont b2 \<and> isCont b3 then 4
      else 0)"
| "utf8_size [b0, b1, b2] =
     (if between 194 223 b0 \<and> isCont b1 then 2
      else if (b0 = CHR 0xE0 \<and> between 160 191 b1 \<or> (between 225 236 b0 \<or> between 238 239 b0) \<and> isCont b1
               \<or> b0 = CHR 0xED \<and> between 128 159 b1) \<and> isCont b2 then 3
      else 0)"
| "utf8_size [b0, b1] = (if between 194 223 b0 \<and> isCont b1 then 2 else 0)"
| "utf8_size _ = 0"

text \<open>
  Decoding a string literal resolves the escapes. A \<^verbatim>\<open>\u\<close> escape gives a code
  point, written in UTF-8; a high surrogate followed by the escape of a low surrogate
  gives one code point, any other surrogate gives U+FFFD. A byte that is not part of
  valid UTF-8 is replaced by U+FFFD.
\<close>

definition hex_digit :: "nat \<Rightarrow> char" where
  "hex_digit n = ''0123456789abcdef'' ! (n mod 16)"

definition hex_val :: "char \<Rightarrow> nat" where
  "hex_val c =
     (if isDigit c then byte c - 48
      else if 97 \<le> byte c \<and> byte c \<le> 102 then byte c - 87
      else byte c - 55)"

definition getu4 :: "string \<Rightarrow> nat" where
  "getu4 s = foldl (\<lambda>a c. 16 * a + hex_val c) 0 (take 4 s)"

definition utf8_encode :: "nat \<Rightarrow> string" where
  "utf8_encode r =
     (if r < 128 then [char_of r]
      else if r < 2048 then [char_of (192 + r div 64), char_of (128 + r mod 64)]
      else if r < 65536 then
        [char_of (224 + r div 4096), char_of (128 + (r div 64) mod 64), char_of (128 + r mod 64)]
      else [char_of (240 + r div 262144), char_of (128 + (r div 4096) mod 64),
            char_of (128 + (r div 64) mod 64), char_of (128 + r mod 64)])"

definition replacement :: string where
  "replacement = [CHR 0xEF, CHR 0xBF, CHR 0xBD]"

definition unescape :: "char \<Rightarrow> char" where
  "unescape e =
     (if e = CHR ''b'' then CHR 0x08 else if e = CHR ''f'' then CHR 0x0C
      else if e = CHR ''n'' then CHR 0x0A else if e = CHR ''r'' then CHR 0x0D
      else if e = CHR ''t'' then CHR 0x09 else e)"

definition is_u4 :: "string \<Rightarrow> bool" where
  "is_u4 s = (6 \<le> length s \<and> take 2 s = [CHR 0x5C, CHR ''u''] \<and> list_all isHex (take 4 (drop 2 s)))"

fun unquote :: "string \<Rightarrow> string" where
  "unquote [] = []"
| "unquote (c # cs) =
     (if c = CHR 0x5C then
        (case cs of
           [] \<Rightarrow> []
         | e # es \<Rightarrow>
             if e = CHR ''u'' then
               (let r = getu4 es; rest = drop 4 es
                in if 55296 \<le> r \<and> r < 57344 then
                     (if r < 56320 \<and> is_u4 rest \<and> 56320 \<le> getu4 (drop 2 rest) \<and> getu4 (drop 2 rest) < 57344
                      then utf8_encode (65536 + (r - 55296) * 1024 + (getu4 (drop 2 rest) - 56320))
                             @ unquote (drop 10 es)
                      else replacement @ unquote (drop 4 es))
                   else utf8_encode r @ unquote (drop 4 es))
             else unescape e # unquote es)
      else if byte c < 128 then c # unquote cs
      else (let k = utf8_size (c # cs)
            in if k = 0 then replacement @ unquote cs
               else take k (c # cs) @ unquote (drop (k - 1) cs)))"

text \<open>
  Encoding a string (what stands between the quotes): the quote and the backslash get
  a backslash; backspace, form feed, line feed, carriage return and tab get their
  short escape (releases of Go before 1.22 write \<^verbatim>\<open>\u0008\<close> and \<^verbatim>\<open>\u000c\<close> for
  the first two); the other control characters and \<^verbatim>\<open><\<close>, \<^verbatim>\<open>>\<close>, \<^verbatim>\<open>&\<close> are
  written as \<^verbatim>\<open>\u00XX\<close>; a byte that is not part of valid UTF-8 is written as
  \<^verbatim>\<open>\ufffd\<close>; the line and paragraph separators U+2028 and U+2029 are escaped;
  everything else is copied.
\<close>

fun quote_body :: "string \<Rightarrow> string" where
  "quote_body [] = []"
| "quote_body (c # cs) =
     (if byte c < 128 then
        (if c = CHR 0x5C \<or> c = CHR 0x22 then [CHR 0x5C, c]
         else if c = CHR 0x08 then [CHR 0x5C, CHR ''b'']
         else if c = CHR 0x0C then [CHR 0x5C, CHR ''f'']
         else if c = CHR 0x0A then [CHR 0x5C, CHR ''n'']
         else if c = CHR 0x0D then [CHR 0x5C, CHR ''r'']
         else if c = CHR 0x09 then [CHR 0x5C, CHR ''t'']
         else if byte c < 32 \<or> c = CHR ''<'' \<or> c = CHR ''>'' \<or> c = CHR ''&''
         then [CHR 0x5C, CHR ''u'', CHR ''0'', CHR ''0'', hex_digit (byte c div 16), hex_digit (byte c mod 16)]
         else [c]) @ quote_body cs
      else (let k = utf8_size (c # cs)
            in if k = 0 then [CHR 0x5C, CHR ''u'', CHR ''f'', CHR ''f'', CHR ''f'', CHR ''d''] @ quote_body cs
               else if take 3 (c # cs) = [CHR 0xE2, CHR 0x80, CHR 0xA8]
               then [CHR 0x5C, CHR ''u'', CHR ''2'', CHR ''0'', CHR ''2'', CHR ''8''] @ quote_body (drop 2 cs)
               else if take 3 (c # cs) = [CHR 0xE2, CHR 0x80, CHR 0xA9]
               then [CHR 0x5C, CHR ''u'', CHR ''2'', CHR ''0'', CHR ''2'', CHR ''9''] @ quote_body (drop 2 cs)
               else take k (c # cs) @ quote_body (drop (k - 1) cs)))"

section \<open>Times in RFC 3339\<close>

text \<open>
  \<^verbatim>\<open>Time.UnmarshalJSON\<close> reads a timestamp in the format of RFC 3339:
  \<^verbatim>\<open>2006-01-02T15:04:05\<close>, an optional fraction of a second, and \<^verbatim>\<open>Z\<close> or an
  offset \<^verbatim>\<open>+07:00\<close>. The fields are range checked, the day against the length of
  the month. Of the fraction nine digits count. Some releases of Go accept a few more
  forms through \<^verbatim>\<open>time.Parse\<close> (an hour of one digit, a comma before the fraction);
  the model reports an error for them.
\<close>

definition atoi :: "string \<Rightarrow> nat" where
  "atoi s = foldl (\<lambda>a c. 10 * a + (byte c - 48)) 0 s"

definition parseUint :: "string \<Rightarrow> nat \<Rightarrow> nat \<Rightarrow> nat option" where
  "parseUint s lo hi =
     (if list_all isDigit s \<and> lo \<le> atoi s \<and> atoi s \<le> hi then Some (atoi s) else None)"

definition isLeap :: "nat \<Rightarrow> bool" where
  "isLeap y = (y mod 4 = 0 \<and> (y mod 100 \<noteq> 0 \<or> y mod 400 = 0))"

definition daysIn :: "nat \<Rightarrow> nat \<Rightarrow> nat" where
  "daysIn m y =
     (if m = 2 then (if isLeap y then 29 else 28)
      else if m = 4 \<or> m = 6 \<or> m = 9 \<or> m = 11 then 30
      else 31)"

definition slice :: "nat \<Rightarrow> nat \<Rightarrow> string \<Rightarrow> string" where
  "slice i j s = take (j - i) (drop i s)"

definition parseNanoseconds :: "string \<Rightarrow> nat" where
  "parseNanoseconds ds = atoi (take 9 ds) * 10 ^ (9 - length (take 9 ds))"

definition parse_zone :: "string \<Rightarrow> int option" where
  "parse_zone s =
     (if s = ''Z'' then Some 0
      else if length s \<noteq> 6 then None
      else case (parseUint (slice 1 3 s) 0 23, parseUint (slice 4 6 s) 0 59) of
        (Some hr, Some mm) \<Rightarrow>
          if (s ! 0 = CHR ''-'' \<or> s ! 0 = CHR ''+'') \<and> s ! 3 = CHR '':'' then
            Some (if s ! 0 = CHR ''-'' then - int (hr * 60 + mm) else int (hr * 60 + mm))
          else None
      | _ \<Rightarrow> None)"

definition parseRFC3339 :: "string \<Rightarrow> Time option" where
  "parseRFC3339 s =
     (if length s < 19 then None
      else case (parseUint (slice 0 4 s) 0 9999, parseUint (slice 5 7 s) 1 12) of
        (Some y, Some mo) \<Rightarrow>
          (case (parseUint (slice 8 10 s) 1 (daysIn mo y), parseUint (slice 11 13 s) 0 23,
                 parseUint (slice 14 16 s) 0 59, parseUint (slice 17 19 s) 0 59) of
             (Some d, Some h, Some mi, Some sec) \<Rightarrow>
               if s ! 4 = CHR ''-'' \<and> s ! 7 = CHR ''-'' \<and> s ! 10 = CHR ''T''
                  \<and> s ! 13 = CHR '':'' \<and> s ! 16 = CHR '':'' then
                 (let r = drop 19 s;
                      n = (if 2 \<le> length r \<and> r ! 0 = CHR ''.'' \<and> isDigit (r ! 1)
                           then 1 + digits_span (tl r) else 0);
                      nsec = (if n = 0 then 0 else parseNanoseconds (slice 1 n r))
                  in case parse_zone (drop n r) of
                       None \<Rightarrow> None
                     | Some z \<Rightarrow>
                         Some \<lparr>year = y, month = mo, day = d, hour = h, minute = mi,
                               second = sec, nanosecond = nsec, zone_minutes = z\<rparr>)
               else None
           | _ \<Rightarrow> None)
      | _ \<Rightarrow> None)"

text \<open>
  \<^verbatim>\<open>Time.MarshalJSON\<close> writes the format \<^verbatim>\<open>RFC3339Nano\<close>: the fraction without its
  trailing zeros and not at all when it is zero, and \<^verbatim>\<open>Z\<close> for the offset zero.
\<close>

definition digit :: "nat \<Rightarrow> char" where
  "digit n = ''0123456789'' ! (n mod 10)"

fun pad :: "nat \<Rightarrow> nat \<Rightarrow> string" where
  "pad 0 n = []"
| "pad (Suc w) n = pad w (n div 10) @ [digit n]"

definition trim_zeros :: "string \<Rightarrow> string" where
  "trim_zeros s = rev (dropWhile (\<lambda>c. c = CHR ''0'') (rev s))"

definition format_zone :: "int \<Rightarrow> string" where
  "format_zone z =
     (if z = 0 then ''Z''
      else (if z < 0 then ''-'' else ''+'') @ pad 2 (nat \<bar>z\<bar> div 60) @ '':'' @ pad 2 (nat \<bar>z\<bar> mod 60))"

definition format_RFC3339Nano :: "Time \<Rightarrow> string" where
  "format_RFC3339Nano t =
     pad 4 (year t) @ ''-'' @ pad 2 (month t) @ ''-'' @ pad 2 (day t) @ ''T''
       @ pad 2 (hour t) @ '':'' @ pad 2 (minute t) @ '':'' @ pad 2 (second t)
       @ (if nanosecond t = 0 then [] else ''.'' @ trim_zeros (pad 9 (nanosecond t)))
       @ format_zone (zone_minutes t)"

section \<open>Decoding and encoding notes\<close>

text \<open>
  The rules of \<^verbatim>\<open>Unmarshal\<close>, from its documentation. The key of a member is
  matched with the names in the struct tags without regard to case (the names are
  \<^verbatim>\<open>id\<close>, \<^verbatim>\<open>title\<close>, \<^verbatim>\<open>content\<close> or \<^verbatim>\<open>text\<close>, \<^verbatim>\<open>createdAt\<close>,
  \<^verbatim>\<open>updatedAt\<close>); a member with any other key is skipped. \<^verbatim>\<open>null\<close> sets a slice
  to nil and leaves a string, a struct or a time as it is. An array sets a slice to
  new elements, each decoded into a zero value; the empty array gives an empty slice
  that is not nil. A value of the wrong kind for its target, and a timestamp that
  does not parse, make the call fail. The members of an object are applied in order,
  so a later member with the same key overrides an earlier one. The error texts of
  the model are shortened; the program only logs them.
\<close>

definition to_lower :: "char \<Rightarrow> char" where
  "to_lower c =
     (if 65 \<le> byte c \<and> byte c \<le> 90 then ''abcdefghijklmnopqrstuvwxyz'' ! (byte c - 65) else c)"

definition fold_eq :: "string \<Rightarrow> string \<Rightarrow> bool" where
  "fold_eq a b = (map to_lower a = map to_lower b)"

fun kind_of :: "json \<Rightarrow> string" where
  "kind_of JNull = ''null''"
| "kind_of (JBool _) = ''bool''"
| "kind_of (JNumber _) = ''number''"
| "kind_of (JString _) = ''string''"
| "kind_of (JArray _) = ''array''"
| "kind_of (JObject _) = ''object''"

definition type_error :: "json \<Rightarrow> string \<Rightarrow> string" where
  "type_error v ty = ''json: cannot unmarshal '' @ kind_of v @ '' into Go value of type '' @ ty"

fun decode_string :: "json \<Rightarrow> string \<Rightarrow> string + string" where
  "decode_string (JString raw) old = Inr (unquote raw)"
| "decode_string JNull old = Inr old"
| "decode_string v old = Inl (type_error v ''string'')"

fun decode_Time :: "json \<Rightarrow> Time \<Rightarrow> string + Time" where
  "decode_Time (JString raw) old =
     (case parseRFC3339 raw of
        Some t \<Rightarrow> Inr t
      | None \<Rightarrow> Inl (''parsing time '' @ [CHR 0x22] @ raw @ [CHR 0x22] @ '': not in RFC 3339 format''))"
| "decode_Time JNull old = Inr old"
| "decode_Time v old = Inl ''Time.UnmarshalJSON: input is not a JSON string''"

fun decode_Content_fields :: "(string \<times> json) list \<Rightarrow> Content \<Rightarrow> string + Content" where
  "decode_Content_fields [] c = Inr c"
| "decode_Content_fields ((k, v) # kvs) c =
     (if fold_eq (unquote k) ''id'' then
        (case decode_string v (c_ID c) of
           Inl e \<Rightarrow> Inl e | Inr s \<Rightarrow> decode_Content_fields kvs (c\<lparr>c_ID := s\<rparr>))
      else if fold_eq (unquote k) ''title'' then
        (case decode_string v (c_Title c) of
           Inl e \<Rightarrow> Inl e | Inr s \<Rightarrow> decode_Content_fields kvs (c\<lparr>c_Title := s\<rparr>))
      else if fold_eq (unquote k) ''text'' then
        (case decode_string v (c_Text c) of
           Inl e \<Rightarrow> Inl e | Inr s \<Rightarrow> decode_Content_fields kvs (c\<lparr>c_Text := s\<rparr>))
      else if fold_eq (unquote k) ''createdAt'' then
        (case decode_Time v (c_CreatedAt c) of
           Inl e \<Rightarrow> Inl e | Inr t \<Rightarrow> decode_Content_fields kvs (c\<lparr>c_CreatedAt := t\<rparr>))
      else if fold_eq (unquote k) ''updatedAt'' then
        (case decode_Time v (c_UpdatedAt c) of
           Inl e \<Rightarrow> Inl e | Inr t \<Rightarrow> decode_Content_fields kvs (c\<lparr>c_UpdatedAt := t\<rparr>))
      else decode_Content_fields kvs c)"

fun decode_Content :: "json \<Rightarrow> Content \<Rightarrow> string + Content" where
  "decode_Content (JObject kvs) c = decode_Content_fields kvs c"
| "decode_Content JNull c = Inr c"
| "decode_Content v c = Inl (type_error v ''main.Content'')"

fun decode_Content_elems :: "json list \<Rightarrow> string + Content list" where
  "decode_Content_elems [] = Inr []"
| "decode_Content_elems (v # vs) =
     (case decode_Content v zero_Content of
        Inl e \<Rightarrow> Inl e
      | Inr c \<Rightarrow> (case decode_Content_elems vs of Inl e \<Rightarrow> Inl e | Inr cs \<Rightarrow> Inr (c # cs)))"

fun decode_Contents :: "json \<Rightarrow> string + Content list option" where
  "decode_Contents (JArray vs) =
     (case decode_Content_elems vs of Inl e \<Rightarrow> Inl e | Inr cs \<Rightarrow> Inr (Some cs))"
| "decode_Contents JNull = Inr None"
| "decode_Contents v = Inl (type_error v ''[]main.Content'')"

fun decode_Note_fields :: "(string \<times> json) list \<Rightarrow> Note \<Rightarrow> string + Note" where
  "decode_Note_fields [] n = Inr n"
| "decode_Note_fields ((k, v) # kvs) n =
     (if fold_eq (unquote k) ''id'' then
        (case decode_string v (n_ID n) of
           Inl e \<Rightarrow> Inl e | Inr s \<Rightarrow> decode_Note_fields kvs (n\<lparr>n_ID := s\<rparr>))
      else if fold_eq (unquote k) ''title'' then
        (case decode_string v (n_Title n) of
           Inl e \<Rightarrow> Inl e | Inr s \<Rightarrow> decode_Note_fields kvs (n\<lparr>n_Title := s\<rparr>))
      else if fold_eq (unquote k) ''content'' then
        (case decode_Contents v of
           Inl e \<Rightarrow> Inl e | Inr cs \<Rightarrow> decode_Note_fields kvs (n\<lparr>n_Content := cs\<rparr>))
      else if fold_eq (unquote k) ''createdAt'' then
        (case decode_Time v (n_CreatedAt n) of
           Inl e \<Rightarrow> Inl e | Inr t \<Rightarrow> decode_Note_fields kvs (n\<lparr>n_CreatedAt := t\<rparr>))
      else if fold_eq (unquote k) ''updatedAt'' then
        (case decode_Time v (n_UpdatedAt n) of
           Inl e \<Rightarrow> Inl e | Inr t \<Rightarrow> decode_Note_fields kvs (n\<lparr>n_UpdatedAt := t\<rparr>))
      else decode_Note_fields kvs n)"

fun decode_Note :: "json \<Rightarrow> Note \<Rightarrow> string + Note" where
  "decode_Note (JObject kvs) n = decode_Note_fields kvs n"
| "decode_Note JNull n = Inr n"
| "decode_Note v n = Inl (type_error v ''main.Note'')"

fun decode_Note_elems :: "json list \<Rightarrow> string + Note list" where
  "decode_Note_elems [] = Inr []"
| "decode_Note_elems (v # vs) =
     (case decode_Note v zero_Note of
        Inl e \<Rightarrow> Inl e
      | Inr n \<Rightarrow> (case decode_Note_elems vs of Inl e \<Rightarrow> Inl e | Inr ns \<Rightarrow> Inr (n # ns)))"

fun decode_Notes :: "json \<Rightarrow> string + Note list option" where
  "decode_Notes (JArray vs) =
     (case decode_Note_elems vs of Inl e \<Rightarrow> Inl e | Inr ns \<Rightarrow> Inr (Some ns))"
| "decode_Notes JNull = Inr None"
| "decode_Notes v = Inl (type_error v ''[]main.Note'')"

text \<open>\<^verbatim>\<open>json.Unmarshal(data, &notes)\<close> with \<open>notes\<close> nil: the syntax check, then the decoding.\<close>

definition json_Unmarshal :: "string \<Rightarrow> string + Note list option" where
  "json_Unmarshal data =
     (case parse_json data of
        None \<Rightarrow> Inl ''json: syntax error''
      | Some v \<Rightarrow> decode_Notes v)"

text \<open>
  \<^verbatim>\<open>Marshal\<close> writes the fields of a struct in the order of their declaration, a nil
  slice as \<^verbatim>\<open>null\<close>, and a time through \<^verbatim>\<open>Time.MarshalJSON\<close>, which fails for a
  year above 9999 and for an offset of 24 hours or more. The encoder first builds the
  JSON value, whose strings are already escaped.
\<close>

definition encode_Time :: "Time \<Rightarrow> string + json" where
  "encode_Time t =
     (if 9999 < year t then
        Inl ''json: error calling MarshalJSON for type time.Time: Time.MarshalJSON: year outside of range [0,9999]''
      else if 24 * 60 \<le> \<bar>zone_minutes t\<bar> then
        Inl ''json: error calling MarshalJSON for type time.Time: Time.MarshalJSON: timezone hour outside of range [0,23]''
      else Inr (JString (format_RFC3339Nano t)))"

definition encode_string :: "string \<Rightarrow> json" where
  "encode_string s = JString (quote_body s)"

definition encode_Content :: "Content \<Rightarrow> string + json" where
  "encode_Content c =
     (case encode_Time (c_CreatedAt c) of
        Inl e \<Rightarrow> Inl e
      | Inr created \<Rightarrow>
          (case encode_Time (c_UpdatedAt c) of
             Inl e \<Rightarrow> Inl e
           | Inr updated \<Rightarrow>
               Inr (JObject [(''id'', encode_string (c_ID c)),
                             (''title'', encode_string (c_Title c)),
                             (''text'', encode_string (c_Text c)),
                             (''createdAt'', created),
                             (''updatedAt'', updated)])))"

fun encode_elems :: "('a \<Rightarrow> string + json) \<Rightarrow> 'a list \<Rightarrow> string + json list" where
  "encode_elems f [] = Inr []"
| "encode_elems f (x # xs) =
     (case f x of
        Inl e \<Rightarrow> Inl e
      | Inr v \<Rightarrow> (case encode_elems f xs of Inl e \<Rightarrow> Inl e | Inr vs \<Rightarrow> Inr (v # vs)))"

definition encode_slice :: "('a \<Rightarrow> string + json) \<Rightarrow> 'a list option \<Rightarrow> string + json" where
  "encode_slice f s =
     (case s of
        None \<Rightarrow> Inr JNull
      | Some xs \<Rightarrow> (case encode_elems f xs of Inl e \<Rightarrow> Inl e | Inr vs \<Rightarrow> Inr (JArray vs)))"

definition encode_Note :: "Note \<Rightarrow> string + json" where
  "encode_Note n =
     (case encode_slice encode_Content (n_Content n) of
        Inl e \<Rightarrow> Inl e
      | Inr content \<Rightarrow>
          (case encode_Time (n_CreatedAt n) of
             Inl e \<Rightarrow> Inl e
           | Inr created \<Rightarrow>
               (case encode_Time (n_UpdatedAt n) of
                  Inl e \<Rightarrow> Inl e
                | Inr updated \<Rightarrow>
                    Inr (JObject [(''id'', encode_string (n_ID n)),
                                  (''title'', encode_string (n_Title n)),
                                  (''content'', content),
                                  (''createdAt'', created),
                                  (''updatedAt'', updated)]))))"

text \<open>
  The two renderings: compact, and indented as \<^verbatim>\<open>MarshalIndent\<close> does it (each
  element and member on a line of its own that starts with the prefix and one copy of
  the indent per level, a space after the colon, and \<^verbatim>\<open>[]\<close> and \<^verbatim>\<open>{}\<close> for the
  empty array and object).
\<close>

fun join :: "string \<Rightarrow> string list \<Rightarrow> string" where
  "join sep [] = []"
| "join sep [x] = x"
| "join sep (x # y # ys) = x @ sep @ join sep (y # ys)"

definition quoted :: "string \<Rightarrow> string" where
  "quoted raw = [CHR 0x22] @ raw @ [CHR 0x22]"

fun render :: "json \<Rightarrow> string" where
  "render JNull = ''null''"
| "render (JBool b) = (if b then ''true'' else ''false'')"
| "render (JNumber s) = s"
| "render (JString raw) = quoted raw"
| "render (JArray xs) = ''['' @ join '','' (map render xs) @ '']''"
| "render (JObject kvs) =
     ''{'' @ join '','' (map (\<lambda>kv. quoted (fst kv) @ '':'' @ render (snd kv)) kvs) @ ''}''"

definition newline :: "string \<Rightarrow> string \<Rightarrow> nat \<Rightarrow> string" where
  "newline prefix indent depth = CHR 0x0A # prefix @ concat (replicate depth indent)"

fun render_indent :: "string \<Rightarrow> string \<Rightarrow> nat \<Rightarrow> json \<Rightarrow> string" where
  "render_indent p i d (JArray xs) =
     (if xs = [] then ''[]''
      else ''['' @ newline p i (Suc d)
             @ join ('','' @ newline p i (Suc d)) (map (render_indent p i (Suc d)) xs)
             @ newline p i d @ '']'')"
| "render_indent p i d (JObject kvs) =
     (if kvs = [] then ''{}''
      else ''{'' @ newline p i (Suc d)
             @ join ('','' @ newline p i (Suc d))
                 (map (\<lambda>kv. quoted (fst kv) @ '': '' @ render_indent p i (Suc d) (snd kv)) kvs)
             @ newline p i d @ ''}'')"
| "render_indent p i d v = render v"

definition json_Marshal :: "Note list option \<Rightarrow> string + string" where
  "json_Marshal notes =
     (case encode_slice encode_Note notes of Inl e \<Rightarrow> Inl e | Inr v \<Rightarrow> Inr (render v))"

definition json_MarshalIndent :: "Note list option \<Rightarrow> string \<Rightarrow> string \<Rightarrow> string + string" where
  "json_MarshalIndent notes prefix indent =
     (case encode_slice encode_Note notes of
        Inl e \<Rightarrow> Inl e
      | Inr v \<Rightarrow> Inr (render_indent prefix indent 0 v))"

text \<open>
  \<^verbatim>\<open>Encoder.Encode\<close> on a \<^verbatim>\<open>map[string]string\<close>: the members sorted by key (bytewise),
  in compact form, followed by a newline.
\<close>

fun string_le :: "string \<Rightarrow> string \<Rightarrow> bool" where
  "string_le [] b = True"
| "string_le (x # xs) [] = False"
| "string_le (x # xs) (y # ys) = (byte x < byte y \<or> (x = y \<and> string_le xs ys))"

fun insert_key :: "string \<times> string \<Rightarrow> (string \<times> string) list \<Rightarrow> (string \<times> string) list" where
  "insert_key e [] = [e]"
| "insert_key e (x # xs) = (if string_le (fst e) (fst x) then e # x # xs else x # insert_key e xs)"

definition sort_keys :: "(string \<times> string) list \<Rightarrow> (string \<times> string) list" where
  "sort_keys m = foldr insert_key m []"

definition json_Encode :: "(string \<times> string) list \<Rightarrow> string + string" where
  "json_Encode m =
     Inr (render (JObject (map (\<lambda>kv. (quote_body (fst kv), encode_string (snd kv))) (sort_keys m)))
          @ [CHR 0x0A])"

section \<open>The JSON package as the handlers use it\<close>

text \<open>
  The handlers call four entry points of Go's \<^verbatim>\<open>encoding/json\<close>, which is not part
  of the repository: \<^verbatim>\<open>Marshal\<close> and \<^verbatim>\<open>MarshalIndent\<close> on a \<^verbatim>\<open>[]Note\<close>,
  \<^verbatim>\<open>Unmarshal\<close> into a \<^verbatim>\<open>[]Note\<close> that starts nil, and an \<^verbatim>\<open>Encoder\<close> on a
  \<^verbatim>\<open>map[string]string\<close>. The handlers take the package as a parameter; each entry
  point returns its error (\<open>Inl\<close>, the error text) or its result. The map literal of
  a response is the list of its entries in the order of the source.
\<close>

record json_lib =
  Marshal :: "Note list option \<Rightarrow> string + string"
  MarshalIndent :: "Note list option \<Rightarrow> string \<Rightarrow> string \<Rightarrow> string + string"
  Unmarshal :: "string \<Rightarrow> string + Note list option"
  Encode :: "(string \<times> string) list \<Rightarrow> string + string"

text \<open>The package as modelled in the sections above.\<close>

definition go_json :: json_lib where
  "go_json = \<lparr>Marshal = json_Marshal, MarshalIndent = json_MarshalIndent,
     Unmarshal = json_Unmarshal, Encode = json_Encode\<rparr>"

text \<open>
  \<^verbatim>\<open>data, _ := json.Marshal(...)\<close>: the error is dropped, and the byte slice of a
  failed call is nil.
\<close>

definition drop_err :: "string + string \<Rightarrow> string" where
  "drop_err r = (case r of Inl _ \<Rightarrow> [] | Inr d \<Rightarrow> d)"

section \<open>The file system and the log\<close>

text \<open>
  The world a handler runs in: the files by path; the faults of the environment (for a
  write of given bytes to a path, the error text and what the file holds afterwards, or
  nothing there; for a read of a path, the error text); and two records of what the
  program did, the calls of \<^verbatim>\<open>ioutil.WriteFile\<close> in order and the lines given to
  \<^verbatim>\<open>log\<close>.
\<close>

record world =
  files :: "string \<rightharpoonup> string"
  write_fault :: "string \<Rightarrow> string \<Rightarrow> (string \<times> string option) option"
  read_fault :: "string \<rightharpoonup> string"
  writes :: "(string \<times> string) list"
  logs :: "string list"

definition ioutil_WriteFile :: "string \<Rightarrow> string \<Rightarrow> world \<Rightarrow> string option \<times> world" where
  "ioutil_WriteFile name data w =
     (let w' = w\<lparr>writes := writes w @ [(name, data)]\<rparr>
      in case write_fault w name data of
           None \<Rightarrow> (None, w'\<lparr>files := (files w)(name \<mapsto> data)\<rparr>)
         | Some (e, left) \<Rightarrow> (Some e, w'\<lparr>files := (files w)(name := left)\<rparr>))"

definition ioutil_ReadFile :: "string \<Rightarrow> world \<Rightarrow> string + string" where
  "ioutil_ReadFile name w =
     (case read_fault w name of
        Some e \<Rightarrow> Inl e
      | None \<Rightarrow>
          (case files w name of
             None \<Rightarrow> Inl (''open '' @ name @ '': no such file or directory'')
           | Some d \<Rightarrow> Inr d))"

text \<open>
  \<^verbatim>\<open>_, err := os.Stat(name); os.IsNotExist(err)\<close>: true exactly when there is no file
  of that name. (The program treats every other outcome of \<^verbatim>\<open>os.Stat\<close> alike.)
\<close>

definition stat_IsNotExist :: "string \<Rightarrow> world \<Rightarrow> bool" where
  "stat_IsNotExist name w = (files w name = None)"

text \<open>\<^verbatim>\<open>log.Println\<close> and \<^verbatim>\<open>log.Printf\<close> each give one line to the log.\<close>

definition log_Println :: "string \<Rightarrow> world \<Rightarrow> world" where
  "log_Println line w = w\<lparr>logs := logs w @ [line]\<rparr>"

text \<open>
  A fresh working directory on a file system without faults: no file, nothing written
  or logged yet.
\<close>

definition fresh_world :: world where
  "fresh_world = \<lparr>files = Map.empty, write_fault = (\<lambda>name data. None),
     read_fault = Map.empty, writes = [], logs = []\<rparr>"

section \<open>Requests and responses\<close>

text \<open>
  Of a request the handlers read the method and the body; reading the body
  (\<^verbatim>\<open>ioutil.ReadAll(r.Body)\<close>) gives an error or the bytes. Of a response the model
  keeps the status code, the headers and the body.
\<close>

record request =
  Method :: string
  Body :: "string + string"

record response =
  status :: nat
  header :: "string \<rightharpoonup> string"
  body :: string

text \<open>
  \<^verbatim>\<open>http.Error\<close> sets the content type to plain text, writes the status code and
  prints the message with a newline.
\<close>

definition http_Error :: "string \<Rightarrow> nat \<Rightarrow> response" where
  "http_Error msg code =
     \<lparr>status = code,
      header = [''Content-Type'' \<mapsto> ''text/plain; charset=utf-8'',
                ''X-Content-Type-Options'' \<mapsto> ''nosniff''],
      body = msg @ [CHR 0x0A]\<rparr>"

text \<open>
  \<^verbatim>\<open>w.Header().Set("Content-Type", "application/json")\<close> followed by
  \<^verbatim>\<open>json.NewEncoder(w).Encode(response)\<close>: the first write sends status 200.
\<close>

definition json_reply :: "json_lib \<Rightarrow> (string \<times> string) list \<Rightarrow> response" where
  "json_reply J m =
     \<lparr>status = 200,
      header = [''Content-Type'' \<mapsto> ''application/json''],
      body = drop_err (Encode J m)\<rparr>"

section \<open>The program\<close>

definition createDefaultFilesIfNotExists :: "json_lib \<Rightarrow> world \<Rightarrow> world" where
  "createDefaultFilesIfNotExists J w =
     (if stat_IsNotExist ''data.txt'' w then
        (let emptyNotes = Some [];
             data = drop_err (Marshal J emptyNotes);
             (err, w1) = ioutil_WriteFile ''data.txt'' data w;
             w2 = (case err of
                     Some e \<Rightarrow> log_Println (''Error creating default data.txt: '' @ e) w1
                   | None \<Rightarrow> log_Println ''Created default data.txt'' w1);
             readableData = drop_err (MarshalIndent J emptyNotes [] ''  '');
             (err', w3) = ioutil_WriteFile ''data_readable.txt'' readableData w2
         in (case err' of
               Some e \<Rightarrow> log_Println (''Error creating default data_readable.txt: '' @ e) w3
             | None \<Rightarrow> log_Println ''Created default data_readable.txt'' w3))
      else log_Println ''data.txt already exists, skipping default file creation'' w)"

definition pingHandler :: "json_lib \<Rightarrow> request \<Rightarrow> world \<Rightarrow> response \<times> world" where
  "pingHandler J r w =
     (json_reply J [(''status'', ''ok''), (''message'', ''Server is running'')], w)"

text \<open>
  \<^verbatim>\<open>saveHandler\<close> holds \<^verbatim>\<open>saveMutex\<close> from after the method check to its return;
  one handler running alone is not affected by it.
\<close>

definition saveHandler :: "json_lib \<Rightarrow> request \<Rightarrow> world \<Rightarrow> response \<times> world" where
  "saveHandler J r w =
     (if Method r \<noteq> ''POST'' then (http_Error ''Only POST method is allowed'' 405, w)
      else case Body r of
        Inl _ \<Rightarrow> (http_Error ''Error reading request body'' 400, w)
      | Inr payload \<Rightarrow>
          (case ioutil_WriteFile ''data.txt'' payload w of
             (Some e, w1) \<Rightarrow> (http_Error (''Error saving to data.txt: '' @ e) 500, w1)
           | (None, w1) \<Rightarrow>
               (let w2 =
                  (case Unmarshal J payload of
                     Inr notes \<Rightarrow>
                       (let readableData = drop_err (MarshalIndent J notes [] ''  '');
                            (err, w') = ioutil_WriteFile ''data_readable.txt'' readableData w1
                        in case err of
                             Some e \<Rightarrow> log_Println (''Error saving to data_readable.txt: '' @ e) w'
                           | None \<Rightarrow>
                               log_Println ''Data auto-saved to data.txt and data_readable.txt'' w')
                   | Inl e \<Rightarrow> log_Println (''Error parsing JSON data: '' @ e) w1)
                in (json_reply J [(''status'', ''success''),
                                  (''message'', ''Data saved successfully'')], w2))))"

definition loadHandler :: "request \<Rightarrow> world \<Rightarrow> response \<times> world" where
  "loadHandler r w =
     (if Method r \<noteq> ''GET'' then (http_Error ''Only GET method is allowed'' 405, w)
      else if stat_IsNotExist ''data.txt'' w then (http_Error ''No saved data found'' 404, w)
      else case ioutil_ReadFile ''data.txt'' w of
        Inl e \<Rightarrow> (http_Error (''Error reading saved data: '' @ e) 500, w)
      | Inr data \<Rightarrow>
          (\<lparr>status = 200, header = [''Content-Type'' \<mapsto> ''application/json''], body = data\<rparr>,
           w))"

section \<open>Example data\<close>

text \<open>
  A payload as a browser writes it with \<^verbatim>\<open>JSON.stringify\<close> (one note with one content
  item, a field \<^verbatim>\<open>pinned\<close> that the structs do not have, and timestamps with
  milliseconds), the notes it decodes to, and the text of the readable store for them.
\<close>

definition example_payload :: string where
  \<open>example_payload =
     ''[{"id":"n1","title":"Shopping","pinned":true,"content":[{"id":"c1","title":"","text":"milk","createdAt":"2024-05-06T07:08:09.500Z","updatedAt":"2024-05-06T07:08:09.500Z"}],"createdAt":"2024-05-06T07:08:09.000Z","updatedAt":"2024-05-06T09:08:09.120+02:00"}]''\<close>

definition example_notes :: "Note list option" where
  "example_notes =
     Some [\<lparr>n_ID = ''n1'', n_Title = ''Shopping'',
            n_Content = Some [\<lparr>c_ID = ''c1'', c_Title = [], c_Text = ''milk'',
              c_CreatedAt = \<lparr>year = 2024, month = 5, day = 6, hour = 7, minute = 8, second = 9,
                nanosecond = 500000000, zone_minutes = 0\<rparr>,
              c_UpdatedAt = \<lparr>year = 2024, month = 5, day = 6, hour = 7, minute = 8, second = 9,
                nanosecond = 500000000, zone_minutes = 0\<rparr>\<rparr>],
            n_CreatedAt = \<lparr>year = 2024, month = 5, day = 6, hour = 7, minute = 8, second = 9,
              nanosecond = 0, zone_minutes = 0\<rparr>,
            n_UpdatedAt = \<lparr>year = 2024, month = 5, day = 6, hour = 9, minute = 8, second = 9,
              nanosecond = 120000000, zone_minutes = 120\<rparr>\<rparr>]"


text \<open>
  Worlds with a fault: the named file cannot be written (and stays as it is), or cannot
  be read.
\<close>

definition deny_write :: "string \<Rightarrow> world \<Rightarrow> world" where
  "deny_write name w =
     w\<lparr>write_fault := (\<lambda>n d. if n = name then Some (''open '' @ name @ '': permission denied'', files w n)
                              else write_fault w n d)\<rparr>"


section \<open>Times and notes that can be encoded\<close>




section \<open>Facts about the file operations and the replies\<close>

lemma write_ok:
  "write_fault w name data = None \<Longrightarrow>
   ioutil_WriteFile name data w =
     (None, w\<lparr>writes := writes w @ [(name, data)], files := (files w)(name \<mapsto> data)\<rparr>)"
  by (simp add: ioutil_WriteFile_def Let_def)

lemma write_failed:
  "write_fault w name data = Some (e, left) \<Longrightarrow>
   ioutil_WriteFile name data w =
     (Some e, w\<lparr>writes := writes w @ [(name, data)], files := (files w)(name := left)\<rparr>)"
  by (simp add: ioutil_WriteFile_def Let_def)

lemma status_http_Error: "status (http_Error msg code) = code"
  by (simp add: http_Error_def)

lemma status_json_reply: "status (json_reply J m) = 200"
  by (simp add: json_reply_def)

lemma save_status_200:
  assumes "Method r = ''POST''" "Body r = Inr P"
  shows "status (fst (saveHandler J r w)) = 200 \<longleftrightarrow> write_fault w ''data.txt'' P = None"
  using assms
  by (auto simp: saveHandler_def ioutil_WriteFile_def Let_def status_http_Error status_json_reply
      split: option.splits prod.splits sum.splits)

lemma save_compact_file:
  assumes "Method r = ''POST''" "Body r = Inr P" "write_fault w ''data.txt'' P = None"
  shows "files (snd (saveHandler J r w)) ''data.txt'' = Some P"
  using assms
  by (auto simp: saveHandler_def ioutil_WriteFile_def Let_def log_Println_def
      split: option.splits prod.splits sum.splits)

lemma save_faults_kept:
  "read_fault (snd (saveHandler J r w)) = read_fault w"
  "write_fault (snd (saveHandler J r w)) = write_fault w"
  by (auto simp: saveHandler_def ioutil_WriteFile_def Let_def log_Println_def
      split: option.splits prod.splits sum.splits)

lemma load_ok:
  assumes "Method g = ''GET''" "files w ''data.txt'' = Some d" "read_fault w ''data.txt'' = None"
  shows "loadHandler g w =
    (\<lparr>status = 200, header = [''Content-Type'' \<mapsto> ''application/json''], body = d\<rparr>, w)"
  using assms by (simp add: loadHandler_def stat_IsNotExist_def ioutil_ReadFile_def)

lemma save_unparsed:
  assumes "Method r = ''POST''" "Body r = Inr P" "write_fault w ''data.txt'' P = None"
    and "Unmarshal J P = Inl e"
  shows "saveHandler J r w =
    (json_reply J [(''status'', ''success''), (''message'', ''Data saved successfully'')],
     w\<lparr>writes := writes w @ [(''data.txt'', P)], files := (files w)(''data.txt'' \<mapsto> P),
       logs := logs w @ [''Error parsing JSON data: '' @ e]\<rparr>)"
  using assms by (simp add: saveHandler_def write_ok log_Println_def)

section \<open>Evaluating the JSON model\<close>

lemmas json_model =
  byte_def isSpace_def isDigit_def isHex_def digits_span_def int_span_def frac_span_def
  exp_span_def number_span_def maxNestingDepth_def push_frame_def parse_json_def isCont_def
  between_def hex_digit_def hex_val_def getu4_def utf8_encode_def replacement_def unescape_def
  is_u4_def atoi_def parseUint_def isLeap_def daysIn_def slice_def parseNanoseconds_def
  parse_zone_def parseRFC3339_def trim_zeros_def format_zone_def format_RFC3339Nano_def
  digit_def to_lower_def fold_eq_def type_error_def json_Unmarshal_def encode_Time_def encode_string_def
  encode_Content_def encode_slice_def encode_Note_def quoted_def newline_def json_Marshal_def
  json_MarshalIndent_def sort_keys_def json_Encode_def go_json_def zero_Time_def zero_Content_def
  zero_Note_def

lemma go_Marshal_empty: "Marshal go_json (Some []) = Inr ''[]''"
  by (simp add: json_model)

lemma go_MarshalIndent_empty: "MarshalIndent go_json (Some []) [] ''  '' = Inr ''[]''"
  by (simp add: json_model)

lemma go_Encode_ok:
  \<open>Encode go_json [(''status'', ''ok''), (''message'', ''Server is running'')] =
     Inr (''{"message":"Server is running","status":"ok"}'' @ [CHR 0x0A])\<close>
  by (simp add: json_model)

lemma go_Encode_success:
  \<open>Encode go_json [(''status'', ''success''), (''message'', ''Data saved successfully'')] =
     Inr (''{"message":"Data saved successfully","status":"success"}'' @ [CHR 0x0A])\<close>
  by (simp add: json_model)

lemma pad_numeral:
  "pad (numeral k) n = pad (pred_numeral k) (n div 10) @ [digit n]"
proof -
  have "pad (numeral k) n = pad (Suc (pred_numeral k)) n"
    by (simp only: numeral_eq_Suc)
  then show ?thesis by (simp only: pad.simps)
qed

lemma go_Unmarshal_example: "Unmarshal go_json example_payload = Inr example_notes"
  by (simp add: example_payload_def example_notes_def json_model)










section \<open>Whatever is decoded can be encoded\<close>
























section \<open>Wrong methods\<close>

text \<open>
  Claim C5. A request to \<^verbatim>\<open>/save\<close> whose method is not POST and a request to
  \<^verbatim>\<open>/load\<close> whose method is not GET are answered with status 405, and the handler
  returns the world it was given: no file, no record of writes and no log line changes.
\<close>

theorem wrong_method_rejected:
  "(Method r \<noteq> ''POST'' \<longrightarrow>
      saveHandler J r w = (http_Error ''Only POST method is allowed'' 405, w)
      \<and> status (fst (saveHandler J r w)) = 405)
   \<and> (Method r \<noteq> ''GET'' \<longrightarrow>
      loadHandler r w = (http_Error ''Only GET method is allowed'' 405, w)
      \<and> status (fst (loadHandler r w)) = 405)"
  by (simp add: saveHandler_def loadHandler_def status_http_Error)

theorem wrong_method_rejected_witness:
  "Method \<lparr>Method = ''GET'', Body = Inr ''[]''\<rparr> \<noteq> ''POST''
   \<and> status (fst (saveHandler go_json \<lparr>Method = ''GET'', Body = Inr ''[]''\<rparr> fresh_world)) = 405
   \<and> snd (saveHandler go_json \<lparr>Method = ''GET'', Body = Inr ''[]''\<rparr> fresh_world) = fresh_world
   \<and> Method \<lparr>Method = ''POST'', Body = Inr []\<rparr> \<noteq> ''GET''
   \<and> status (fst (loadHandler \<lparr>Method = ''POST'', Body = Inr []\<rparr> fresh_world)) = 405
   \<and> snd (loadHandler \<lparr>Method = ''POST'', Body = Inr []\<rparr> fresh_world) = fresh_world"
  using wrong_method_rejected [of "\<lparr>Method = ''GET'', Body = Inr ''[]''\<rparr>" go_json fresh_world]
        wrong_method_rejected [of "\<lparr>Method = ''POST'', Body = Inr []\<rparr>" go_json fresh_world]
  by (simp add: status_http_Error)

section \<open>Saving and loading\<close>

text \<open>
  Claim C1. Let the payload \<open>P\<close> be a serialization of the collection \<open>C\<close>: parsing
  \<open>P\<close> gives \<open>C\<close>. After a POST to \<^verbatim>\<open>/save\<close> with body \<open>P\<close> that is answered with
  status 200, a GET to \<^verbatim>\<open>/load\<close> whose read of the compact store does not fail is
  answered with status 200 and the bytes \<open>P\<close>, which parse to \<open>C\<close> again.
\<close>

theorem save_then_load_round_trip:
  assumes "Unmarshal J P = Inr C"
    and "Method r = ''POST''" and "Body r = Inr P"
    and "status (fst (saveHandler J r w)) = 200"
    and "Method g = ''GET''"
    and "read_fault (snd (saveHandler J r w)) ''data.txt'' = None"
  shows "fst (loadHandler g (snd (saveHandler J r w))) =
           \<lparr>status = 200, header = [''Content-Type'' \<mapsto> ''application/json''], body = P\<rparr>
         \<and> Unmarshal J (body (fst (loadHandler g (snd (saveHandler J r w))))) = Inr C"
proof -
  from assms have ok: "write_fault w ''data.txt'' P = None"
    by (simp add: save_status_200)
  with assms have "files (snd (saveHandler J r w)) ''data.txt'' = Some P"
    by (simp add: save_compact_file)
  with assms have "loadHandler g (snd (saveHandler J r w)) =
      (\<lparr>status = 200, header = [''Content-Type'' \<mapsto> ''application/json''], body = P\<rparr>,
       snd (saveHandler J r w))"
    by (simp add: load_ok)
  with assms show ?thesis by simp
qed

theorem save_then_load_round_trip_witness:
  "Unmarshal go_json example_payload = Inr example_notes
   \<and> Unmarshal go_json (drop_err (Marshal go_json example_notes)) = Inr example_notes
   \<and> status (fst (saveHandler go_json \<lparr>Method = ''POST'', Body = Inr example_payload\<rparr> fresh_world)) = 200
   \<and> body (fst (loadHandler \<lparr>Method = ''GET'', Body = Inr []\<rparr>
        (snd (saveHandler go_json \<lparr>Method = ''POST'', Body = Inr example_payload\<rparr> fresh_world))))
      = example_payload
   \<and> Unmarshal go_json (body (fst (loadHandler \<lparr>Method = ''GET'', Body = Inr []\<rparr>
        (snd (saveHandler go_json \<lparr>Method = ''POST'', Body = Inr example_payload\<rparr> fresh_world)))))
      = Inr example_notes"
proof -
  let ?r = "\<lparr>Method = ''POST'', Body = Inr example_payload\<rparr>"
  let ?g = "\<lparr>Method = ''GET'', Body = Inr []\<rparr>"
  have s: "status (fst (saveHandler go_json ?r fresh_world)) = 200"
    by (simp add: save_status_200 fresh_world_def)
  have f: "read_fault (snd (saveHandler go_json ?r fresh_world)) ''data.txt'' = None"
    by (simp add: save_faults_kept fresh_world_def)
  from save_then_load_round_trip [of go_json example_payload example_notes ?r fresh_world ?g,
      OF go_Unmarshal_example _ _ s _ f]
  moreover have "Unmarshal go_json (drop_err (Marshal go_json example_notes)) = Inr example_notes"
    by (simp add: example_notes_def json_model pad_numeral drop_err_def)
  ultimately show ?thesis using s go_Unmarshal_example by simp
qed

text \<open>
  Claim C2. Let the payload \<open>P\<close> not parse as a collection of notes, and let the write of
  the compact store not fail. A POST to \<^verbatim>\<open>/save\<close> with body \<open>P\<close> is answered with
  status 200 and the success payload; afterwards the compact store holds \<open>P\<close>, the
  readable store is what it was (the only write issued is that of the compact store),
  the failure to parse is logged, and a GET to \<^verbatim>\<open>/load\<close> whose read does not fail returns \<open>P\<close>.
\<close>

theorem save_unparsable_payload:
  assumes "Unmarshal J P = Inl e"
    and "Method r = ''POST''" and "Body r = Inr P"
    and "write_fault w ''data.txt'' P = None"
  shows "fst (saveHandler J r w) =
           json_reply J [(''status'', ''success''), (''message'', ''Data saved successfully'')]
         \<and> status (fst (saveHandler J r w)) = 200
         \<and> files (snd (saveHandler J r w)) ''data.txt'' = Some P
         \<and> files (snd (saveHandler J r w)) ''data_readable.txt'' = files w ''data_readable.txt''
         \<and> writes (snd (saveHandler J r w)) = writes w @ [(''data.txt'', P)]
         \<and> logs (snd (saveHandler J r w)) = logs w @ [''Error parsing JSON data: '' @ e]
         \<and> (Method g = ''GET'' \<and> read_fault w ''data.txt'' = None \<longrightarrow>
              fst (loadHandler g (snd (saveHandler J r w))) =
                \<lparr>status = 200, header = [''Content-Type'' \<mapsto> ''application/json''], body = P\<rparr>)"
  using assms by (simp add: save_unparsed status_json_reply load_ok)

theorem save_unparsable_payload_witness:
  "Unmarshal go_json ''buy milk'' = Inl ''json: syntax error''
   \<and> status (fst (saveHandler go_json \<lparr>Method = ''POST'', Body = Inr ''buy milk''\<rparr>
        (createDefaultFilesIfNotExists go_json fresh_world))) = 200
   \<and> files (snd (saveHandler go_json \<lparr>Method = ''POST'', Body = Inr ''buy milk''\<rparr>
        (createDefaultFilesIfNotExists go_json fresh_world))) ''data.txt'' = Some ''buy milk''
   \<and> files (snd (saveHandler go_json \<lparr>Method = ''POST'', Body = Inr ''buy milk''\<rparr>
        (createDefaultFilesIfNotExists go_json fresh_world))) ''data_readable.txt'' = Some ''[]''
   \<and> body (fst (loadHandler \<lparr>Method = ''GET'', Body = Inr []\<rparr>
        (snd (saveHandler go_json \<lparr>Method = ''POST'', Body = Inr ''buy milk''\<rparr>
          (createDefaultFilesIfNotExists go_json fresh_world))))) = ''buy milk''"
proof -
  let ?r = "\<lparr>Method = ''POST'', Body = Inr ''buy milk''\<rparr>"
  let ?g = "\<lparr>Method = ''GET'', Body = Inr []\<rparr>"
  let ?w = "createDefaultFilesIfNotExists go_json fresh_world"
  have u: "Unmarshal go_json ''buy milk'' = Inl ''json: syntax error''"
    by (simp add: json_model)
  have w: "write_fault ?w ''data.txt'' ''buy milk'' = None"
     and rf: "read_fault ?w ''data.txt'' = None"
     and old: "files ?w ''data_readable.txt'' = Some ''[]''"
    by (simp_all add: createDefaultFilesIfNotExists_def stat_IsNotExist_def fresh_world_def
        ioutil_WriteFile_def log_Println_def go_Marshal_empty go_MarshalIndent_empty drop_err_def
        Let_def)
  from save_unparsable_payload [of go_json "''buy milk''" "''json: syntax error''" ?r ?w ?g, OF u _ _ w]
  show ?thesis using u rf old by (simp add: status_json_reply)
qed

text \<open>
  Claim C3. When the write of the compact store fails, a POST to \<^verbatim>\<open>/save\<close> is
  answered with status 500 and a message that ends with the text of the error; the
  readable store is what it was, and no write of it was issued.
\<close>

theorem compact_write_failure:
  assumes "Method r = ''POST''" and "Body r = Inr P"
    and "write_fault w ''data.txt'' P = Some (e, left)"
  shows "status (fst (saveHandler J r w)) = 500
         \<and> body (fst (saveHandler J r w)) = ''Error saving to data.txt: '' @ e @ [CHR 0x0A]
         \<and> files (snd (saveHandler J r w)) ''data_readable.txt'' = files w ''data_readable.txt''
         \<and> writes (snd (saveHandler J r w)) = writes w @ [(''data.txt'', P)]"
  using assms by (simp add: saveHandler_def write_failed http_Error_def)

theorem compact_write_failure_witness:
  "write_fault (deny_write ''data.txt'' fresh_world) ''data.txt'' ''[]'' =
     Some (''open data.txt: permission denied'', None)
   \<and> status (fst (saveHandler go_json \<lparr>Method = ''POST'', Body = Inr ''[]''\<rparr>
         (deny_write ''data.txt'' fresh_world))) = 500
   \<and> body (fst (saveHandler go_json \<lparr>Method = ''POST'', Body = Inr ''[]''\<rparr>
         (deny_write ''data.txt'' fresh_world))) =
       ''Error saving to data.txt: open data.txt: permission denied'' @ [CHR 0x0A]
   \<and> files (snd (saveHandler go_json \<lparr>Method = ''POST'', Body = Inr ''[]''\<rparr>
         (deny_write ''data.txt'' fresh_world))) ''data_readable.txt'' = None"
proof -
  have f: "write_fault (deny_write ''data.txt'' fresh_world) ''data.txt'' ''[]'' =
     Some (''open data.txt: permission denied'', None)"
    by (simp add: deny_write_def fresh_world_def)
  from compact_write_failure [of "\<lparr>Method = ''POST'', Body = Inr ''[]''\<rparr>" "''[]''"
      "deny_write ''data.txt'' fresh_world" _ _ go_json, OF _ _ f]
  show ?thesis using f by (simp add: deny_write_def fresh_world_def)
qed

text \<open>
  Claim C4. When the payload parses and the compact store is written, a failure of the
  write of the readable store does not reach the client: the answer is status 200 with
  the success payload, and the only trace of the failure is one line of the log.
\<close>

theorem readable_write_failure_not_propagated:
  assumes "Method r = ''POST''" and "Body r = Inr P"
    and "Unmarshal J P = Inr notes"
    and "write_fault w ''data.txt'' P = None"
    and "write_fault w ''data_readable.txt'' (drop_err (MarshalIndent J notes [] ''  '')) = Some (e, left)"
  shows "fst (saveHandler J r w) =
           json_reply J [(''status'', ''success''), (''message'', ''Data saved successfully'')]
         \<and> status (fst (saveHandler J r w)) = 200
         \<and> logs (snd (saveHandler J r w)) = logs w @ [''Error saving to data_readable.txt: '' @ e]
         \<and> files (snd (saveHandler J r w)) ''data.txt'' = Some P"
  using assms
  by (simp add: saveHandler_def write_ok write_failed log_Println_def status_json_reply Let_def)

theorem readable_write_failure_not_propagated_witness:
  \<open>Unmarshal go_json ''[]'' = Inr (Some [])
   \<and> write_fault (deny_write ''data_readable.txt'' fresh_world) ''data_readable.txt''
        (drop_err (MarshalIndent go_json (Some []) [] ''  '')) =
       Some (''open data_readable.txt: permission denied'', None)
   \<and> status (fst (saveHandler go_json \<lparr>Method = ''POST'', Body = Inr ''[]''\<rparr>
         (deny_write ''data_readable.txt'' fresh_world))) = 200
   \<and> body (fst (saveHandler go_json \<lparr>Method = ''POST'', Body = Inr ''[]''\<rparr>
         (deny_write ''data_readable.txt'' fresh_world))) =
       ''{"message":"Data saved successfully","status":"success"}'' @ [CHR 0x0A]
   \<and> logs (snd (saveHandler go_json \<lparr>Method = ''POST'', Body = Inr ''[]''\<rparr>
         (deny_write ''data_readable.txt'' fresh_world))) =
       [''Error saving to data_readable.txt: open data_readable.txt: permission denied'']\<close>
proof -
  let ?w = "deny_write ''data_readable.txt'' fresh_world"
  have u: "Unmarshal go_json ''[]'' = Inr (Some [])"
    by (simp add: json_model)
  have c: "write_fault ?w ''data.txt'' ''[]'' = None"
    by (simp add: deny_write_def fresh_world_def)
  have f: "write_fault ?w ''data_readable.txt'' (drop_err (MarshalIndent go_json (Some []) [] ''  '')) =
       Some (''open data_readable.txt: permission denied'', None)"
    by (simp add: deny_write_def fresh_world_def)
  from readable_write_failure_not_propagated
         [of "\<lparr>Method = ''POST'', Body = Inr ''[]''\<rparr>" "''[]''" go_json "Some []" ?w, OF _ _ u c f]
  show ?thesis
    using u f by (simp add: json_reply_def go_Encode_success drop_err_def deny_write_def fresh_world_def)
qed


section \<open>Loading\<close>



section \<open>Start of the process\<close>



section \<open>The liveness probe\<close>

text \<open>
  Claim C8. A request to \<^verbatim>\<open>/ping\<close>, with any method and in any world, is answered with
  status 200, content type \<^verbatim>\<open>application/json\<close> and the encoding of the map with
  \<^verbatim>\<open>status\<close> \<^verbatim>\<open>ok\<close> and \<^verbatim>\<open>message\<close> \<^verbatim>\<open>Server is running\<close>, and the world is
  returned as it was. The encoder writes the keys of a map in sorted order and ends with
  a newline, so the bytes are \<^verbatim>\<open>{"message":"Server is running","status":"ok"}\<close> and a
  newline: the same JSON object as
  \<^verbatim>\<open>{"status":"ok","message":"Server is running"}\<close>, with the same members.
\<close>

theorem ping_reply:
  \<open>pingHandler J r w = (json_reply J [(''status'', ''ok''), (''message'', ''Server is running'')], w)
   \<and> status (fst (pingHandler J r w)) = 200
   \<and> header (fst (pingHandler J r w)) ''Content-Type'' = Some ''application/json''
   \<and> body (fst (pingHandler go_json r w)) =
       ''{"message":"Server is running","status":"ok"}'' @ [CHR 0x0A]
   \<and> parse_json (body (fst (pingHandler go_json r w))) =
       Some (JObject [(''message'', JString ''Server is running''), (''status'', JString ''ok'')])
   \<and> parse_json ''{"status":"ok","message":"Server is running"}'' =
       Some (JObject [(''status'', JString ''ok''), (''message'', JString ''Server is running'')])
   \<and> map_of [(''message'', JString ''Server is running''), (''status'', JString ''ok'')] =
       map_of [(''status'', JString ''ok''), (''message'', JString ''Server is running'')]\<close>
proof -
  have b: \<open>body (fst (pingHandler go_json r w)) =
       ''{"message":"Server is running","status":"ok"}'' @ [CHR 0x0A]\<close>
    by (simp add: pingHandler_def json_reply_def go_Encode_ok drop_err_def)
  have p1: \<open>parse_json (''{"message":"Server is running","status":"ok"}'' @ [CHR 0x0A]) =
       Some (JObject [(''message'', JString ''Server is running''), (''status'', JString ''ok'')])\<close>
    by (simp add: json_model)
  have p2: \<open>parse_json ''{"status":"ok","message":"Server is running"}'' =
       Some (JObject [(''status'', JString ''ok''), (''message'', JString ''Server is running'')])\<close>
    by (simp add: json_model)
  have m: "map_of [(''message'', JString ''Server is running''), (''status'', JString ''ok'')] =
       map_of [(''status'', JString ''ok''), (''message'', JString ''Server is running'')]"
    by (rule ext) simp
  show ?thesis
    using b p1 p2 m by (simp add: pingHandler_def json_reply_def)
qed

theorem ping_reply_witness:
  \<open>pingHandler go_json \<lparr>Method = ''DELETE'', Body = Inr ''x''\<rparr> (deny_write ''data.txt'' fresh_world) =
     (\<lparr>status = 200, header = [''Content-Type'' \<mapsto> ''application/json''],
       body = ''{"message":"Server is running","status":"ok"}'' @ [CHR 0x0A]\<rparr>,
      deny_write ''data.txt'' fresh_world)\<close>
  using ping_reply [of go_json "\<lparr>Method = ''DELETE'', Body = Inr ''x''\<rparr>" "deny_write ''data.txt'' fresh_world"]
  by (simp add: json_reply_def go_Encode_ok drop_err_def)


section \<open>The readable store\<close>




end
